theory Spec2Isabelle
  imports Complex_Main "HOL-Library.Sublist"
begin

section \<open>JavaScript values\<close>

text \<open>
  The values a parsed JSON body can hold. A JavaScript number is a double; the server
  never computes with a price, it only tests and stores it, so a number is modelled by
  its kind: a finite value (a rational), one of the two infinities, or NaN.
  \<open>JSON.parse\<close> yields an infinity for a literal such as \<open>1e999\<close>.
  Objects and arrays are not inspected by the server and are the one value \<open>Obj\<close>.
\<close>

datatype number = Finite rat | PosInfinity | NegInfinity | NaN

datatype jsval = Undefined | Null | Bool bool | Num number | Str string | Obj

text \<open>\<open>!v\<close> is false exactly for the truthy values.\<close>

fun truthy :: "jsval \<Rightarrow> bool" where
  "truthy Undefined = False"
| "truthy Null = False"
| "truthy (Bool b) = b"
| "truthy (Num n) = (n \<noteq> NaN \<and> n \<noteq> Finite 0)"
| "truthy (Str s) = (s \<noteq> [])"
| "truthy Obj = True"

fun typeof :: "jsval \<Rightarrow> string" where
  "typeof Undefined = ''undefined''"
| "typeof Null = ''object''"
| "typeof (Bool b) = ''boolean''"
| "typeof (Num n) = ''number''"
| "typeof (Str s) = ''string''"
| "typeof Obj = ''object''"

definition Number_isNaN :: "jsval \<Rightarrow> bool" where
  "Number_isNaN v = (v = Num NaN)"

section \<open>Strings\<close>

text \<open>
  A string is a list of characters, each a code unit below 256 (the characters of
  ISO 8859-1, the first 256 of Unicode). On these \<open>toLowerCase\<close> maps \<open>A\<close>..\<open>Z\<close>
  (65..90) and the accented capitals 192..222, the multiplication sign 215 apart, to
  the letter 32 above (it sets the bit of value 32), and leaves every other character
  alone. White space, for \<open>trim\<close> and \<open>parseInt\<close>, is the characters 9 to 13, the
  space 32 and the no-break space 160.
\<close>

definition lower_char :: "char \<Rightarrow> char" where
  "lower_char c =
     (let n = (of_char c :: nat)
      in if (65 \<le> n \<and> n \<le> 90) \<or> (192 \<le> n \<and> n \<le> 222 \<and> n \<noteq> 215)
         then (case c of Char b0 b1 b2 b3 b4 b5 b6 b7 \<Rightarrow> Char b0 b1 b2 b3 b4 True b6 b7)
         else c)"

definition toLowerCase :: "string \<Rightarrow> string" where
  "toLowerCase s = map lower_char s"

definition is_ws :: "char \<Rightarrow> bool" where
  "is_ws c = (let n = (of_char c :: nat) in (9 \<le> n \<and> n \<le> 13) \<or> n = 32 \<or> n = 160)"

definition trim :: "string \<Rightarrow> string" where
  "trim s = rev (dropWhile is_ws (rev (dropWhile is_ws s)))"

fun startsWith :: "string \<Rightarrow> string \<Rightarrow> bool" where
  "startsWith s [] = True"
| "startsWith [] (c # t) = False"
| "startsWith (d # s) (c # t) = (d = c \<and> startsWith s t)"

text \<open>\<open>includes_str s t\<close> is \<open>s.includes(t)\<close>: the string \<open>t\<close> occurs in \<open>s\<close> at some position.\<close>

fun includes_str :: "string \<Rightarrow> string \<Rightarrow> bool" where
  "includes_str [] t = (t = [])"
| "includes_str (d # s) t = (startsWith (d # s) t \<or> includes_str s t)"

fun join :: "string \<Rightarrow> string list \<Rightarrow> string" where
  "join sep [] = []"
| "join sep [x] = x"
| "join sep (x # y # xs) = x @ sep @ join sep (y # xs)"

subsection \<open>Integer arithmetic on doubles\<close>

text \<open>
  The page and the limit are JavaScript numbers, that is doubles. Those that occur are
  NaN, the two infinities, and integers that a double holds. \<open>double_of_int\<close> rounds an
  integer to the nearest double, a tie to the even significand of 53 bits, and to an
  infinity from \<open>2 ^ 1024\<close> on; every integer below \<open>2 ^ 53\<close> in magnitude is a double
  already. Sum, difference and product of two such doubles are the exact results
  rounded so. The one zero of the model stands for both zeros of a double.
\<close>

datatype jsint = JInt int | JPosInf | JNegInf | JNaN

function bit_length :: "int \<Rightarrow> nat" where
  "bit_length n = (if n \<le> 0 then 0 else Suc (bit_length (n div 2)))"
  by pat_completeness auto
termination
  by (relation "measure nat") (auto simp add: int_div_less_self)

definition double_of_int :: "int \<Rightarrow> jsint" where
  "double_of_int n =
     (let a = \<bar>n\<bar>
      in if a < 2 ^ 53 then JInt n
         else if 2 ^ 1024 \<le> a then (if n < 0 then JNegInf else JPosInf)
         else (let e = bit_length a - 53;
                   q = a div 2 ^ e;
                   r = a mod 2 ^ e;
                   h = 2 ^ (e - 1);
                   q' = (if h < r \<or> (r = h \<and> odd q) then q + 1 else q);
                   v = q' * 2 ^ e
               in if 2 ^ 1024 \<le> v then (if n < 0 then JNegInf else JPosInf)
                  else JInt (if n < 0 then - v else v)))"

fun js_neg :: "jsint \<Rightarrow> jsint" where
  "js_neg (JInt n) = JInt (- n)"
| "js_neg JPosInf = JNegInf"
| "js_neg JNegInf = JPosInf"
| "js_neg JNaN = JNaN"

fun js_add :: "jsint \<Rightarrow> jsint \<Rightarrow> jsint" where
  "js_add JNaN b = JNaN"
| "js_add a JNaN = JNaN"
| "js_add (JInt x) (JInt y) = double_of_int (x + y)"
| "js_add (JInt x) b = b"
| "js_add a (JInt y) = a"
| "js_add a b = (if a = b then a else JNaN)"

definition js_sub :: "jsint \<Rightarrow> jsint \<Rightarrow> jsint" where
  "js_sub a b = js_add a (js_neg b)"

fun js_mul :: "jsint \<Rightarrow> jsint \<Rightarrow> jsint" where
  "js_mul JNaN b = JNaN"
| "js_mul a JNaN = JNaN"
| "js_mul (JInt x) (JInt y) = double_of_int (x * y)"
| "js_mul (JInt x) b = (if x = 0 then JNaN else if 0 < x then b else js_neg b)"
| "js_mul a (JInt y) = (if y = 0 then JNaN else if 0 < y then a else js_neg a)"
| "js_mul a b = (if a = b then JPosInf else JNegInf)"

text \<open>\<open>x || d\<close> for a number \<open>x\<close>: NaN and zero are falsy and give \<open>d\<close>.\<close>

fun js_or :: "jsint \<Rightarrow> jsint \<Rightarrow> jsint" where
  "js_or JNaN d = d"
| "js_or (JInt n) d = (if n = 0 then d else JInt n)"
| "js_or x d = x"

text \<open>\<open>Math.max(m, x)\<close> for an integer \<open>m\<close>.\<close>

fun Math_max :: "int \<Rightarrow> jsint \<Rightarrow> jsint" where
  "Math_max m (JInt n) = JInt (max m n)"
| "Math_max m JPosInf = JPosInf"
| "Math_max m JNegInf = JInt m"
| "Math_max m JNaN = JNaN"

subsection \<open>parseInt with radix 10\<close>

text \<open>
  \<open>parseInt(s, 10)\<close> skips leading white space, reads an optional sign and the longest
  run of decimal digits; with no digit the result is NaN. The result is a double: the
  integer read, rounded.
\<close>

definition is_digit :: "char \<Rightarrow> bool" where
  "is_digit c = (let n = (of_char c :: nat) in 48 \<le> n \<and> n \<le> 57)"

definition decimal :: "string \<Rightarrow> int" where
  "decimal ds = foldl (\<lambda>a c. 10 * a + (of_char c - 48)) 0 ds"

definition parseInt :: "string \<Rightarrow> jsint" where
  "parseInt s =
     (let t = dropWhile is_ws s;
          neg = (t \<noteq> [] \<and> hd t = CHR ''-'');
          u = (if t \<noteq> [] \<and> (hd t = CHR ''-'' \<or> hd t = CHR ''+'') then tl t else t);
          ds = takeWhile is_digit u
      in if ds = [] then JNaN
         else double_of_int (if neg then - decimal ds else decimal ds))"

section \<open>The product collection\<close>

text \<open>
  A stored product. The handlers that write a product run behind \<open>validateProduct\<close>, so
  \<open>name\<close> and \<open>category\<close> are strings, \<open>price\<close> a number and \<open>inStock\<close> a boolean;
  \<open>description\<close> is never checked and is whatever value the body held.
\<close>

record product =
  product_id :: string
  name :: string
  description :: jsval
  price :: number
  category :: string
  inStock :: bool

definition products_init :: "product list" where
  "products_init =
     [\<lparr>product_id = ''1'', name = ''Laptop'',
        description = Str ''High-performance laptop with 16GB RAM'',
        price = Finite 1200, category = ''electronics'', inStock = True\<rparr>,
      \<lparr>product_id = ''2'', name = ''Smartphone'',
        description = Str ''Latest model with 128GB storage'',
        price = Finite 800, category = ''electronics'', inStock = True\<rparr>,
      \<lparr>product_id = ''3'', name = ''Coffee Maker'',
        description = Str ''Programmable coffee maker with timer'',
        price = Finite 50, category = ''kitchen'', inStock = False\<rparr>]"

section \<open>Requests, errors and responses\<close>

datatype http_method = GET | POST | PUT | DELETE | OTHER

text \<open>
  A request as the routes see it: the method, the path as its list of segments (those
  between the slashes, decoded; a path that ends in a slash has an empty last segment),
  the value of the header \<open>x-api-key\<close>, the query parameters and the body. The body is the
  object the JSON body parser has made of the request, given by its properties; reading
  a property the object lacks gives \<open>undefined\<close>. (A request whose body the parser
  refuses is answered by the parser's own error and reaches no route.) A query
  parameter is a string.
\<close>

record request =
  req_method :: http_method
  path :: "string list"
  x_api_key :: "string option"
  query :: "(string \<times> string) list"
  body :: "(string \<times> jsval) list"

definition property :: "(string \<times> jsval) list \<Rightarrow> string \<Rightarrow> jsval" where
  "property obj k = (case map_of obj k of None \<Rightarrow> Undefined | Some v \<Rightarrow> v)"

text \<open>
  A request as it arrives at the server, before \<open>bodyParser.json()\<close>, the first
  middleware, has run. The parser either makes an object of the body (the empty object
  when the request has none), or refuses it and passes an error of its own, which has
  a status code (400 for a body that is not JSON) and a message.
\<close>

datatype payload = Unparseable nat string | Json "(string \<times> jsval) list"

record incoming =
  in_method :: http_method
  in_path :: "string list"
  in_x_api_key :: "string option"
  in_query :: "(string \<times> string) list"
  in_body :: payload

text \<open>
  \<open>AppError message statusCode\<close> is the operational error class of the server;
  \<open>TypeError\<close> is the exception the JavaScript runtime throws when a method is called
  on a value that lacks it; \<open>HttpError statusCode message\<close> is the error of the body
  parser, which has a status code and is not marked operational.
\<close>

datatype error = AppError string nat | TypeError string | HttpError nat string

definition NotFoundError :: "string \<Rightarrow> error" where
  "NotFoundError message = AppError message 404"

definition ValidationError :: "string \<Rightarrow> error" where
  "ValidationError message = AppError message 400"

text \<open>
  The JSON bodies the server sends, each with its status code where it varies:
  the plain-text greeting, the list page (\<open>results\<close>, \<open>page\<close>, \<open>total\<close>, \<open>products\<close>), one
  product, the statistics (\<open>countByCategory\<close>, \<open>total\<close>), the body of the error
  handler (status code, \<open>status\<close>, \<open>message\<close>), and the framework's own answer when no
  route matches. They hold the values the handlers pass to \<open>res.json\<close>. A value of
  the statistics is a count, or a string where the key met a property that an object
  inherits (see \<open>stats_step\<close>).
\<close>

datatype stat = Count nat | Text string

datatype response =
    Greeting
  | ListJson nat jsint nat "product list"
  | ProductJson nat product
  | StatsJson "string \<Rightarrow> stat option" nat
  | ErrorJson nat string string
  | NoRoute

fun statusCode :: "response \<Rightarrow> nat" where
  "statusCode Greeting = 200"
| "statusCode (ListJson r p t ps) = 200"
| "statusCode (ProductJson c p) = c"
| "statusCode (StatsJson m t) = 200"
| "statusCode (ErrorJson c s m) = c"
| "statusCode NoRoute = 404"

text \<open>The global error handler.\<close>

fun error_handler :: "error \<Rightarrow> response" where
  "error_handler (AppError message code) =
     ErrorJson (if code = 0 then 500 else code) ''fail''
       (if message = [] then ''Internal Server Error'' else message)"
| "error_handler (TypeError message) =
     ErrorJson 500 ''error'' (if message = [] then ''Internal Server Error'' else message)"
| "error_handler (HttpError code message) =
     ErrorJson (if code = 0 then 500 else code) ''error''
       (if message = [] then ''Internal Server Error'' else message)"

section \<open>Middleware\<close>

text \<open>A middleware gives \<open>Some err\<close> for \<open>next(err)\<close> and \<open>None\<close> for \<open>next()\<close>.\<close>

definition expected_key :: "string option \<Rightarrow> string" where
  "expected_key env = (case env of None \<Rightarrow> ''secret-key''
                       | Some k \<Rightarrow> if k = [] then ''secret-key'' else k)"

definition requireApiKey :: "string option \<Rightarrow> request \<Rightarrow> error option" where
  "requireApiKey env req =
     (let key = x_api_key req; expected = expected_key env
      in if key = None \<or> key = Some [] \<or> key \<noteq> Some expected
         then Some (AppError ''Invalid or missing API key'' 401)
         else None)"

text \<open>\<open>blank v\<close> is \<open>!v.trim()\<close>, which the source evaluates on strings only.\<close>

definition blank :: "jsval \<Rightarrow> bool" where
  "blank v = (case v of Str s \<Rightarrow> trim s = [] | _ \<Rightarrow> True)"

definition validation_errors :: "(string \<times> jsval) list \<Rightarrow> string list" where
  "validation_errors b =
     (if typeof (property b ''name'') \<noteq> ''string'' \<or> blank (property b ''name'')
      then [''name (string) is required''] else []) @
     (if typeof (property b ''price'') \<noteq> ''number'' \<or> Number_isNaN (property b ''price'')
      then [''price (number) is required''] else []) @
     (if typeof (property b ''category'') \<noteq> ''string'' \<or> blank (property b ''category'')
      then [''category (string) is required''] else []) @
     (if typeof (property b ''inStock'') \<noteq> ''boolean''
      then [''inStock (boolean) is required''] else [])"

definition validateProduct :: "request \<Rightarrow> error option" where
  "validateProduct req =
     (let errors = validation_errors (body req)
      in if errors \<noteq> [] then Some (ValidationError (join ''; '' errors)) else None)"

section \<open>Handlers\<close>

text \<open>
  A handler takes the collection and gives its outcome, an error passed to \<open>next\<close> or
  thrown (\<open>Inl\<close>) or the JSON it sends (\<open>Inr\<close>), and the collection it leaves.
\<close>

type_synonym outcome = "(error + response) \<times> product list"

subsection \<open>GET /api/products\<close>

text \<open>
  \<open>xs.slice(start, end)\<close>: each index is made an integer or an infinity (NaN becomes
  0), a negative index counts from the end, and both are clamped to the list.
\<close>

fun relative_index :: "int \<Rightarrow> jsint \<Rightarrow> int" where
  "relative_index len (JInt n) = (if n < 0 then max (len + n) 0 else min n len)"
| "relative_index len JPosInf = len"
| "relative_index len JNegInf = 0"
| "relative_index len JNaN = 0"

definition slice :: "'a list \<Rightarrow> jsint \<Rightarrow> jsint \<Rightarrow> 'a list" where
  "slice xs start stop =
     (let len = int (length xs);
          k = relative_index len start;
          final = relative_index len stop
      in take (nat (final - k)) (drop (nat k) xs))"

text \<open>
  The callback of the text filter. \<open>||\<close> evaluates its right operand only when the name
  does not contain the term; \<open>(p.description || '')\<close> is the description when it is
  truthy, and \<open>toLowerCase\<close> exists on strings only.
\<close>

definition text_match :: "string \<Rightarrow> product \<Rightarrow> error + bool" where
  "text_match term p =
     (if includes_str (toLowerCase (name p)) term then Inr True
      else (case (if truthy (description p) then description p else Str []) of
              Str d \<Rightarrow> Inr (includes_str (toLowerCase d) term)
            | _ \<Rightarrow> Inl (TypeError ''toLowerCase is not a function'')))"

text \<open>\<open>filter\<close> calls the callback on each element in order; an exception ends it.\<close>

fun filter_text :: "string \<Rightarrow> product list \<Rightarrow> error + product list" where
  "filter_text term [] = Inr []"
| "filter_text term (p # ps) =
     (case text_match term p of
        Inl e \<Rightarrow> Inl e
      | Inr keep \<Rightarrow>
          (case filter_text term ps of
             Inl e \<Rightarrow> Inl e
           | Inr rest \<Rightarrow> Inr (if keep then p # rest else rest)))"

definition filter_category :: "request \<Rightarrow> product list \<Rightarrow> product list" where
  "filter_category req results =
     (case map_of (query req) ''category'' of
        None \<Rightarrow> results
      | Some c \<Rightarrow>
          if c = [] then results
          else (let cat = toLowerCase c
                in filter (\<lambda>p. toLowerCase (category p) = cat) results))"

definition filter_q :: "request \<Rightarrow> product list \<Rightarrow> error + product list" where
  "filter_q req results =
     (case map_of (query req) ''q'' of
        None \<Rightarrow> Inr results
      | Some q \<Rightarrow>
          if q = [] then Inr results
          else filter_text (toLowerCase q) results)"

text \<open>
  \<open>page = 1\<close> and \<open>limit = 10\<close> in the destructuring stand for an absent parameter;
  then \<open>Math.max(1, parseInt(page, 10) || 1)\<close> and \<open>Math.max(1, parseInt(limit, 10) || 10)\<close>.
\<close>

definition effective_page :: "request \<Rightarrow> jsint" where
  "effective_page req =
     Math_max 1 (js_or (case map_of (query req) ''page'' of
                          None \<Rightarrow> JInt 1 | Some s \<Rightarrow> parseInt s) (JInt 1))"

definition effective_limit :: "request \<Rightarrow> jsint" where
  "effective_limit req =
     Math_max 1 (js_or (case map_of (query req) ''limit'' of
                          None \<Rightarrow> JInt 10 | Some s \<Rightarrow> parseInt s) (JInt 10))"

definition list_products :: "request \<Rightarrow> product list \<Rightarrow> outcome" where
  "list_products req products =
     (case filter_q req (filter_category req products) of
        Inl e \<Rightarrow> (Inl e, products)
      | Inr results \<Rightarrow>
          (let p = effective_page req;
               l = effective_limit req;
               start = js_mul (js_sub p (JInt 1)) l;
               paged = slice results start (js_add start l)
           in (Inr (ListJson (length paged) p (length results) paged), products)))"

subsection \<open>GET /api/products/:id\<close>

text \<open>\<open>req.params.id\<close> is \<open>None\<close> when the route has no such parameter.\<close>

definition get_product :: "string option \<Rightarrow> product list \<Rightarrow> outcome" where
  "get_product i products =
     (case find (\<lambda>p. Some (product_id p) = i) products of
        None \<Rightarrow> (Inl (NotFoundError ''Product not found''), products)
      | Some product \<Rightarrow> (Inr (ProductJson 200 product), products))"

subsection \<open>POST, PUT and DELETE\<close>

text \<open>
  The destructuring \<open>{ name, description = '', price, category, inStock } = req.body\<close>
  behind \<open>validateProduct\<close>: the four checked properties at the types the check has
  established, and the description with its default. It is \<open>None\<close> only for a body
  that \<open>validateProduct\<close> refuses (lemma \<open>valid_body_destructure\<close> below), so the
  \<open>None\<close> branch of the two handlers that use it is never taken behind that gate.
\<close>

definition destructure ::
  "(string \<times> jsval) list \<Rightarrow> (string \<times> jsval \<times> number \<times> string \<times> bool) option" where
  "destructure b =
     (case property b ''name'' of
        Str n \<Rightarrow>
          (case property b ''price'' of
             Num pr \<Rightarrow>
               (case property b ''category'' of
                  Str c \<Rightarrow>
                    (case property b ''inStock'' of
                       Bool s \<Rightarrow>
                         Some (n, (if property b ''description'' = Undefined then Str []
                                   else property b ''description''), pr, c, s)
                     | _ \<Rightarrow> None)
                | _ \<Rightarrow> None)
           | _ \<Rightarrow> None)
      | _ \<Rightarrow> None)"

text \<open>
  The argument \<open>uuid\<close> is the value the call \<open>uuidv4()\<close> returns in this request.
\<close>

definition create_product :: "string \<Rightarrow> request \<Rightarrow> product list \<Rightarrow> outcome" where
  "create_product uuid req products =
     (case destructure (body req) of
        None \<Rightarrow> (Inl (TypeError ''body not validated''), products)
      | Some (n, d, pr, c, s) \<Rightarrow>
          (let newProduct = \<lparr>product_id = uuid, name = n, description = d, price = pr,
                              category = c, inStock = s\<rparr>
           in (Inr (ProductJson 201 newProduct), products @ [newProduct])))"

text \<open>
  \<open>findIndex\<close> gives the index of the first element that satisfies the test, always
  within the list, and \<open>None\<close> where the source gets \<open>-1\<close>.
\<close>

fun findIndex :: "('a \<Rightarrow> bool) \<Rightarrow> 'a list \<Rightarrow> nat option" where
  "findIndex P [] = None"
| "findIndex P (x # xs) =
     (if P x then Some 0 else map_option Suc (findIndex P xs))"

text \<open>
  The update writes \<open>{ ...products[idx], name, description, price, category, inStock }\<close>
  at the index found: the old record with the five properties overwritten.
\<close>

definition update_product :: "string option \<Rightarrow> request \<Rightarrow> product list \<Rightarrow> outcome" where
  "update_product i req products =
     (case findIndex (\<lambda>p. Some (product_id p) = i) products of
        None \<Rightarrow> (Inl (NotFoundError ''Product not found''), products)
      | Some idx \<Rightarrow>
          (case destructure (body req) of
             None \<Rightarrow> (Inl (TypeError ''body not validated''), products)
           | Some (n, d, pr, c, s) \<Rightarrow>
               (let products' = products[idx := (products ! idx)
                                  \<lparr>name := n, description := d, price := pr,
                                   category := c, inStock := s\<rparr>]
                in (Inr (ProductJson 200 (products' ! idx)), products'))))"

text \<open>\<open>products.splice(idx, 1)\<close> takes the one record at the index out of the list.\<close>

definition delete_product :: "string option \<Rightarrow> product list \<Rightarrow> outcome" where
  "delete_product i products =
     (case findIndex (\<lambda>p. Some (product_id p) = i) products of
        None \<Rightarrow> (Inl (NotFoundError ''Product not found''), products)
      | Some idx \<Rightarrow>
          (let removed = products ! idx
           in (Inr (ProductJson 200 removed), take idx products @ drop (Suc idx) products)))"

subsection \<open>GET /api/products/stats\<close>

text \<open>
  The accumulator of \<open>reduce\<close> is an object literal. Besides the properties the loop
  gives it, it inherits those of \<open>Object.prototype\<close>, all of them truthy: functions,
  and under \<open>__proto__\<close> the prototype itself. \<open>object_prototype\<close> gives, for each such
  key, the string the value becomes in \<open>(acc[k] || 0) + 1\<close>.
\<close>

definition native :: "string \<Rightarrow> string" where
  "native f = ''function '' @ f @ ''() { [native code] }''"

definition object_prototype :: "(string \<times> string) list" where
  "object_prototype =
     [(''constructor'', native ''Object''),
      (''__defineGetter__'', native ''__defineGetter__''),
      (''__defineSetter__'', native ''__defineSetter__''),
      (''hasOwnProperty'', native ''hasOwnProperty''),
      (''__lookupGetter__'', native ''__lookupGetter__''),
      (''__lookupSetter__'', native ''__lookupSetter__''),
      (''isPrototypeOf'', native ''isPrototypeOf''),
      (''propertyIsEnumerable'', native ''propertyIsEnumerable''),
      (''toString'', native ''toString''),
      (''valueOf'', native ''valueOf''),
      (''toLocaleString'', native ''toLocaleString''),
      (''__proto__'', ''[object Object]'')]"

text \<open>
  The callback of \<open>reduce\<close>: \<open>acc[p.category] = (acc[p.category] || 0) + 1\<close>. The
  accumulator is read as the map of its own properties. Adding 1 to a count gives the
  next count, and to a string the string with \<open>1\<close> appended. An assignment to
  \<open>__proto__\<close> of a value that is not an object changes nothing.
\<close>

definition stats_step :: "(string \<Rightarrow> stat option) \<Rightarrow> product \<Rightarrow> (string \<Rightarrow> stat option)" where
  "stats_step acc p =
     (let k = category p;
          old = (case acc k of
                   Some v \<Rightarrow> Some v
                 | None \<Rightarrow> map_option Text (map_of object_prototype k));
          new = (case old of
                   None \<Rightarrow> Count 1
                 | Some (Count n) \<Rightarrow> Count (n + 1)
                 | Some (Text t) \<Rightarrow> if t = [] then Count 1 else Text (t @ ''1''))
      in if k = ''__proto__'' then acc else acc(k \<mapsto> new))"

definition stats_handler :: "product list \<Rightarrow> outcome" where
  "stats_handler products =
     (let stats = foldl stats_step Map.empty products
      in (Inr (StatsJson stats (length products)), products))"

section \<open>Routing\<close>

text \<open>
  The router keeps its routes in the order of their registration and runs the first
  one whose method and path match the request. A handler of this server that answers
  or passes an error never calls \<open>next()\<close>, so no later route sees the request. A path
  pattern is a list of literal segments and named parameters. A literal matches a
  segment whatever the case of its letters, a parameter matches one non-empty segment,
  and a path may end in one slash more than the pattern.
\<close>

datatype segment = Lit string | Param string

datatype endpoint =
  Root | ListProducts | GetProduct | CreateProduct | UpdateProduct | DeleteProduct | Stats

fun match_path :: "segment list \<Rightarrow> string list \<Rightarrow> (string \<times> string) list option" where
  "match_path [] xs = (if xs = [] \<or> xs = [[]] then Some [] else None)"
| "match_path (Lit s # pat) (x # xs) =
     (if toLowerCase s = toLowerCase x then match_path pat xs else None)"
| "match_path (Param k # pat) (x # xs) =
     (if x = [] then None
      else (case match_path pat xs of None \<Rightarrow> None | Some params \<Rightarrow> Some ((k, x) # params)))"
| "match_path pat xs = None"

definition routes :: "(http_method \<times> segment list \<times> endpoint) list" where
  "routes =
     [(GET, [], Root),
      (GET, [Lit ''api'', Lit ''products''], ListProducts),
      (GET, [Lit ''api'', Lit ''products'', Param ''id''], GetProduct),
      (POST, [Lit ''api'', Lit ''products''], CreateProduct),
      (PUT, [Lit ''api'', Lit ''products'', Param ''id''], UpdateProduct),
      (DELETE, [Lit ''api'', Lit ''products'', Param ''id''], DeleteProduct),
      (GET, [Lit ''api'', Lit ''products'', Lit ''stats''], Stats)]"

fun find_route ::
  "(http_method \<times> segment list \<times> endpoint) list \<Rightarrow> http_method \<Rightarrow> string list
     \<Rightarrow> (endpoint \<times> (string \<times> string) list) option" where
  "find_route [] m xs = None"
| "find_route ((m', pat, h) # rs) m xs =
     (if m' = m
      then (case match_path pat xs of
              Some params \<Rightarrow> Some (h, params)
            | None \<Rightarrow> find_route rs m xs)
      else find_route rs m xs)"

text \<open>The chain of middleware and handler registered for each route.\<close>

definition run_endpoint ::
  "string option \<Rightarrow> string \<Rightarrow> endpoint \<Rightarrow> (string \<times> string) list \<Rightarrow> request
     \<Rightarrow> product list \<Rightarrow> outcome" where
  "run_endpoint env uuid h params req products =
     (case h of
        Root \<Rightarrow> (Inr Greeting, products)
      | ListProducts \<Rightarrow> list_products req products
      | GetProduct \<Rightarrow> get_product (map_of params ''id'') products
      | CreateProduct \<Rightarrow>
          (case requireApiKey env req of
             Some e \<Rightarrow> (Inl e, products)
           | None \<Rightarrow>
               (case validateProduct req of
                  Some e \<Rightarrow> (Inl e, products)
                | None \<Rightarrow> create_product uuid req products))
      | UpdateProduct \<Rightarrow>
          (case requireApiKey env req of
             Some e \<Rightarrow> (Inl e, products)
           | None \<Rightarrow>
               (case validateProduct req of
                  Some e \<Rightarrow> (Inl e, products)
                | None \<Rightarrow> update_product (map_of params ''id'') req products))
      | DeleteProduct \<Rightarrow>
          (case requireApiKey env req of
             Some e \<Rightarrow> (Inl e, products)
           | None \<Rightarrow> delete_product (map_of params ''id'') products)
      | Stats \<Rightarrow> stats_handler products)"

text \<open>
  The routes and the error handler on one request that the body parser has passed on:
  \<open>env\<close> is the environment variable \<open>API_KEY\<close>, \<open>uuid\<close> the value \<open>uuidv4()\<close>
  returns if the request calls it. The result is the response sent and the collection
  after the request. (\<open>serve\<close> below puts the parser in front.)
\<close>

definition handle ::
  "string option \<Rightarrow> string \<Rightarrow> request \<Rightarrow> product list \<Rightarrow> response \<times> product list" where
  "handle env uuid req products =
     (case find_route routes (req_method req) (path req) of
        None \<Rightarrow> (NoRoute, products)
      | Some (h, params) \<Rightarrow>
          (case run_endpoint env uuid h params req products of
             (Inl e, products') \<Rightarrow> (error_handler e, products')
           | (Inr r, products') \<Rightarrow> (r, products')))"

text \<open>
  \<open>bodyParser.json()\<close> is registered before every route: it passes its error for a
  body it refuses, and otherwise hands the request on with the parsed body.
\<close>

definition bodyParser_json :: "incoming \<Rightarrow> error + request" where
  "bodyParser_json inc =
     (case in_body inc of
        Unparseable code message \<Rightarrow> Inl (HttpError code message)
      | Json b \<Rightarrow>
          Inr \<lparr>req_method = in_method inc, path = in_path inc,
               x_api_key = in_x_api_key inc, query = in_query inc, body = b\<rparr>)"

text \<open>The whole server on one arriving request: the parser, then the routes.\<close>

definition serve ::
  "string option \<Rightarrow> string \<Rightarrow> incoming \<Rightarrow> product list \<Rightarrow> response \<times> product list" where
  "serve env uuid inc products =
     (case bodyParser_json inc of
        Inl e \<Rightarrow> (error_handler e, products)
      | Inr req \<Rightarrow> handle env uuid req products)"

text \<open>A run of the server: the requests in order, each with its \<open>uuidv4()\<close> value.\<close>

fun run :: "string option \<Rightarrow> (string \<times> incoming) list \<Rightarrow> product list \<Rightarrow> product list" where
  "run env [] products = products"
| "run env ((uuid, inc) # rs) products = run env rs (snd (serve env uuid inc products))"

text \<open>
  The requests that call \<open>uuidv4()\<close> are those that reach the create handler: passed
  by the parser, routed to the handler and passed by both gates. \<open>uuids_drawn\<close> lists
  the values the calls of a run return.
\<close>

definition reaches_create :: "string option \<Rightarrow> request \<Rightarrow> bool" where
  "reaches_create env req =
     (map_option fst (find_route routes (req_method req) (path req)) = Some CreateProduct
      \<and> requireApiKey env req = None \<and> validateProduct req = None)"

definition calls_uuidv4 :: "string option \<Rightarrow> incoming \<Rightarrow> bool" where
  "calls_uuidv4 env inc =
     (case bodyParser_json inc of Inl e \<Rightarrow> False | Inr req \<Rightarrow> reaches_create env req)"

definition uuids_drawn :: "string option \<Rightarrow> (string \<times> incoming) list \<Rightarrow> string list" where
  "uuids_drawn env rs = map fst (filter (\<lambda>(uuid, inc). calls_uuidv4 env inc) rs)"

section \<open>Routing and middleware facts\<close>

lemma route_list: "find_route routes GET [''api'', ''products''] = Some (ListProducts, [])"
  by (simp add: routes_def toLowerCase_def lower_char_def)

lemma route_create: "find_route routes POST [''api'', ''products''] = Some (CreateProduct, [])"
  by (simp add: routes_def toLowerCase_def lower_char_def)

lemma route_get:
  "i \<noteq> [] \<Longrightarrow> find_route routes GET [''api'', ''products'', i] = Some (GetProduct, [(''id'', i)])"
  by (simp add: routes_def toLowerCase_def lower_char_def)

lemma route_put:
  "i \<noteq> [] \<Longrightarrow> find_route routes PUT [''api'', ''products'', i] = Some (UpdateProduct, [(''id'', i)])"
  by (simp add: routes_def toLowerCase_def lower_char_def)

lemma route_delete:
  "i \<noteq> [] \<Longrightarrow>
   find_route routes DELETE [''api'', ''products'', i] = Some (DeleteProduct, [(''id'', i)])"
  by (simp add: routes_def toLowerCase_def lower_char_def)

lemma expected_key_nonempty: "expected_key env \<noteq> []"
  by (simp add: expected_key_def split: option.splits)

lemma requireApiKey_pass:
  "x_api_key req = Some (expected_key env) \<Longrightarrow> requireApiKey env req = None"
  by (simp add: requireApiKey_def expected_key_nonempty)

lemma find_None: "find P xs = None \<longleftrightarrow> (\<forall>x\<in>set xs. \<not> P x)"
  by (induction xs) auto

lemma findIndex_None: "findIndex P xs = None \<longleftrightarrow> (\<forall>x\<in>set xs. \<not> P x)"
  by (induction xs) auto

lemma get_missing_id:
  assumes "i \<noteq> []" and "i \<notin> product_id ` set products"
    and "req_method req = GET" and "path req = [''api'', ''products'', i]"
  shows "handle env uuid req products = (ErrorJson 404 ''fail'' ''Product not found'', products)"
proof -
  have "find (\<lambda>p. Some (product_id p) = Some i) products = None"
    using assms(2) by (auto simp add: find_None)
  with assms(1,3,4) show ?thesis
    by (simp add: handle_def route_get run_endpoint_def get_product_def NotFoundError_def)
qed

section \<open>The parser and the authentication gate\<close>

text \<open>
  Claim C7, as amended. A POST to /api/products whose \<open>x-api-key\<close> header is absent
  or is not the configured secret is answered with the Unauthorized error, status 401,
  for every body the JSON parser accepts, whether or not the body would pass validation:
  the validation gate behind the key gate is not reached. A body the parser refuses is
  answered before that, with the parser's own error through the error handler. In both
  cases the collection is left as it was.
\<close>

theorem unauthorized_create:
  assumes "in_method inc = POST" and "in_path inc = [''api'', ''products'']"
    and "in_x_api_key inc = None \<or> in_x_api_key inc \<noteq> Some (expected_key env)"
  shows "serve env uuid inc products =
           (case in_body inc of
              Unparseable code message \<Rightarrow> (error_handler (HttpError code message), products)
            | Json b \<Rightarrow> (ErrorJson 401 ''fail'' ''Invalid or missing API key'', products))"
  using assms
  by (auto simp add: serve_def bodyParser_json_def handle_def route_create run_endpoint_def
      requireApiKey_def split: payload.splits)

theorem unauthorized_create_witness:
  "serve None ''u'' \<lparr>in_method = POST, in_path = [''api'', ''products''],
      in_x_api_key = Some ''wrong'', in_query = [],
      in_body = Json [(''price'', Str ''abc'')]\<rparr> products_init
   = (ErrorJson 401 ''fail'' ''Invalid or missing API key'', products_init)"
  using unauthorized_create [of "\<lparr>in_method = POST, in_path = [''api'', ''products''],
      in_x_api_key = Some ''wrong'', in_query = [],
      in_body = Json [(''price'', Str ''abc'')]\<rparr>" None "''u''" products_init]
  by (simp add: expected_key_def)

text \<open>
  Claim C7 as it was stated speaks of every request body, valid or invalid. A POST
  without a key whose body is not JSON is answered by the parser's error, status 400,
  not with status 401: \<open>bodyParser.json()\<close> runs before \<open>requireApiKey\<close>.
\<close>

theorem refused_body_answered_400:
  "serve None ''u'' \<lparr>in_method = POST, in_path = [''api'', ''products''],
      in_x_api_key = None, in_query = [],
      in_body = Unparseable 400 ''Unexpected end of JSON input''\<rparr> products_init
   = (ErrorJson 400 ''error'' ''Unexpected end of JSON input'', products_init)"
  by (simp add: serve_def bodyParser_json_def)

section \<open>Unknown ids\<close>

text \<open>
  Claim C6. For an id that no product of the collection has, a GET of
  /api/products/:id, a PUT to it with the right key and a valid body, and a DELETE of it
  with the right key are each answered with the Not-Found error, status 404. A route
  parameter is a non-empty path segment.
\<close>

theorem missing_id_not_found:
  assumes "i \<noteq> []" and "i \<notin> product_id ` set products"
    and "path req = [''api'', ''products'', i]"
    and "req_method req = GET
         \<or> (req_method req = PUT \<and> x_api_key req = Some (expected_key env)
              \<and> validation_errors (body req) = [])
         \<or> (req_method req = DELETE \<and> x_api_key req = Some (expected_key env))"
  shows "handle env uuid req products = (ErrorJson 404 ''fail'' ''Product not found'', products)"
proof -
  have ni: "findIndex (\<lambda>p. Some (product_id p) = Some i) products = None"
    using assms(2) by (auto simp add: findIndex_None)
  from assms(4) show ?thesis
  proof (elim disjE conjE)
    assume "req_method req = GET"
    then show ?thesis
      using assms(1,2,3) by (simp add: get_missing_id)
  next
    assume "req_method req = PUT" "x_api_key req = Some (expected_key env)"
      "validation_errors (body req) = []"
    then show ?thesis
      using ni assms(1,3)
      by (simp add: handle_def route_put run_endpoint_def requireApiKey_pass validateProduct_def
          update_product_def NotFoundError_def)
  next
    assume "req_method req = DELETE" "x_api_key req = Some (expected_key env)"
    then show ?thesis
      using ni assms(1,3)
      by (simp add: handle_def route_delete run_endpoint_def requireApiKey_pass
          delete_product_def NotFoundError_def)
  qed
qed

theorem missing_id_not_found_witness:
  "handle None ''u'' \<lparr>req_method = PUT, path = [''api'', ''products'', ''99''],
      x_api_key = Some ''secret-key'', query = [],
      body = [(''name'', Str ''Mug''), (''price'', Num (Finite 4)),
              (''category'', Str ''kitchen''), (''inStock'', Bool True)]\<rparr> products_init
   = (ErrorJson 404 ''fail'' ''Product not found'', products_init)"
  using missing_id_not_found [of "''99''" products_init
      "\<lparr>req_method = PUT, path = [''api'', ''products'', ''99''],
        x_api_key = Some ''secret-key'', query = [],
        body = [(''name'', Str ''Mug''), (''price'', Num (Finite 4)),
                (''category'', Str ''kitchen''), (''inStock'', Bool True)]\<rparr>" None "''u''"]
  by (simp add: products_init_def expected_key_def validation_errors_def property_def
      blank_def trim_def is_ws_def Number_isNaN_def)

section \<open>Errors leave the collection alone\<close>

lemma run_endpoint_error_frame:
  "run_endpoint env uuid h params req products = (Inl e, products') \<Longrightarrow> products' = products"
  by (auto simp add: run_endpoint_def list_products_def get_product_def create_product_def
      update_product_def delete_product_def stats_handler_def Let_def
      split: endpoint.splits option.splits sum.splits prod.splits)

lemma run_endpoint_success_frame:
  "run_endpoint env uuid h params req products = (Inr r, products') \<Longrightarrow> products' \<noteq> products
    \<Longrightarrow> statusCode r = 200 \<or> statusCode r = 201"
  by (auto simp add: run_endpoint_def list_products_def get_product_def create_product_def
      update_product_def delete_product_def stats_handler_def Let_def
      split: endpoint.splits option.splits sum.splits prod.splits)

text \<open>
  Claim C10. Whenever a request, to any endpoint, is answered with status 401, 400 or
  404, the collection after the request is the collection before it.
\<close>

theorem error_leaves_collection:
  assumes "statusCode (fst (handle env uuid req products)) \<in> {401, 400, 404}"
  shows "snd (handle env uuid req products) = products"
proof (cases "find_route routes (req_method req) (path req)")
  case None
  then show ?thesis by (simp add: handle_def)
next
  case (Some hp)
  obtain h params where hp: "hp = (h, params)" by (cases hp)
  obtain out products' where r: "run_endpoint env uuid h params req products = (out, products')"
    by (cases "run_endpoint env uuid h params req products")
  show ?thesis
  proof (cases out)
    case (Inl e)
    with r have "products' = products" by (simp add: run_endpoint_error_frame)
    with Some hp r Inl show ?thesis by (simp add: handle_def)
  next
    case (Inr resp)
    with Some hp r have h: "handle env uuid req products = (resp, products')"
      by (simp add: handle_def)
    with assms have "statusCode resp \<noteq> 200 \<and> statusCode resp \<noteq> 201" by auto
    with r Inr have "products' = products"
      using run_endpoint_success_frame by blast
    with h show ?thesis by simp
  qed
qed

theorem error_leaves_collection_witness:
  "statusCode (fst (handle None ''u'' \<lparr>req_method = DELETE, path = [''api'', ''products'', ''99''],
      x_api_key = Some ''secret-key'', query = [], body = []\<rparr> products_init))
     \<in> {401, 400, 404}
   \<and> snd (handle None ''u'' \<lparr>req_method = DELETE, path = [''api'', ''products'', ''99''],
      x_api_key = Some ''secret-key'', query = [], body = []\<rparr> products_init) = products_init"
proof -
  have h: "statusCode (fst (handle None ''u'' \<lparr>req_method = DELETE,
      path = [''api'', ''products'', ''99''], x_api_key = Some ''secret-key'', query = [],
      body = []\<rparr> products_init)) \<in> {401, 400, 404}"
    by (simp add: handle_def routes_def toLowerCase_def lower_char_def run_endpoint_def requireApiKey_def expected_key_def
        delete_product_def products_init_def NotFoundError_def)
  show ?thesis using h error_leaves_collection [OF h] by simp
qed

section \<open>The statistics route\<close>

text \<open>
  What the statistics handler computes when it runs, on a collection none of whose
  categories is the name of a property that an object inherits: for each category of
  the collection the number of products of that category, no entry for any other key,
  and the number of products.
\<close>

lemma stats_step_count:
  assumes "map_of object_prototype (category p) = None"
  shows "stats_step (\<lambda>c. if c \<in> category ` set qs
                          then Some (Count (length (filter (\<lambda>p. category p = c) qs)))
                          else None) p
         = (\<lambda>c. if c \<in> category ` set (qs @ [p])
                 then Some (Count (length (filter (\<lambda>p. category p = c) (qs @ [p]))))
                 else None)"
proof -
  from assms have "category p \<noteq> ''__proto__''"
    by (auto simp add: object_prototype_def)
  with assms show ?thesis
    by (auto simp add: stats_step_def Let_def fun_eq_iff filter_empty_conv)
      (metis imageI)+
qed

lemma foldl_stats_step:
  assumes "\<forall>p\<in>set ps. map_of object_prototype (category p) = None"
  shows "foldl stats_step (\<lambda>c. if c \<in> category ` set qs
                          then Some (Count (length (filter (\<lambda>p. category p = c) qs)))
                          else None) ps
         = (\<lambda>c. if c \<in> category ` set (qs @ ps)
                 then Some (Count (length (filter (\<lambda>p. category p = c) (qs @ ps))))
                 else None)"
  using assms
proof (induction ps arbitrary: qs)
  case Nil
  then show ?case by (simp cong: if_cong)
next
  case (Cons p ps)
  from Cons.prems have "map_of object_prototype (category p) = None" by simp
  from stats_step_count [OF this, of qs] Cons.IH [of "qs @ [p]"] Cons.prems
  show ?case by (simp cong: if_cong)
qed

lemma stats_handler_counts:
  assumes "\<forall>p\<in>set products. map_of object_prototype (category p) = None"
  shows "stats_handler products =
     (Inr (StatsJson (\<lambda>c. if c \<in> category ` set products
                          then Some (Count (length (filter (\<lambda>p. category p = c) products)))
                          else None)
                 (length products)), products)"
  using foldl_stats_step [OF assms, of "[]"] by (simp add: stats_handler_def cong: if_cong)

text \<open>
  The route /api/products/:id is registered before /api/products/stats, and its pattern
  matches the path /api/products/stats with \<open>id = stats\<close>.
\<close>

lemma stats_route_shadowed:
  "find_route routes GET [''api'', ''products'', ''stats'']
     = Some (GetProduct, [(''id'', ''stats'')])"
  by (simp add: routes_def toLowerCase_def lower_char_def)

text \<open>
  So in every state a GET of /api/products/stats is answered by the lookup of a product
  whose id is \<open>stats\<close>, never by the statistics handler.
\<close>

lemma stats_never_answered:
  assumes "req_method req = GET" and "path req = [''api'', ''products'', ''stats'']"
  shows "handle env uuid req products =
     (case find (\<lambda>p. product_id p = ''stats'') products of
        None \<Rightarrow> (ErrorJson 404 ''fail'' ''Product not found'', products)
      | Some p \<Rightarrow> (ProductJson 200 p, products))"
  using assms
  by (simp add: handle_def stats_route_shadowed run_endpoint_def get_product_def
      NotFoundError_def split: option.splits)

text \<open>
  Claim C1 says that a GET of /api/products/stats is answered, in every state of the
  collection, with a success response holding the count of products per category and
  the total. On the seeded collection the server answers with the Not-Found error,
  status 404.
\<close>

theorem stats_request_not_found:
  "handle None ''u'' \<lparr>req_method = GET, path = [''api'', ''products'', ''stats''],
      x_api_key = None, query = [], body = []\<rparr> products_init
   = (ErrorJson 404 ''fail'' ''Product not found'', products_init)"
  by (simp add: handle_def routes_def toLowerCase_def lower_char_def run_endpoint_def get_product_def products_init_def
      NotFoundError_def)

section \<open>Validation of the price\<close>

lemma join_nonempty:
  "xs \<noteq> [] \<Longrightarrow> \<forall>x\<in>set xs. x \<noteq> [] \<Longrightarrow> join sep xs \<noteq> []"
  by (induction sep xs rule: join.induct) auto

text \<open>
  Claim C2, as amended. For every create or update request with the right key whose body
  has a \<open>price\<close> that is not a number, or is NaN, the request is answered with the
  Validation error, status 400, the collection is unchanged, and the message, the
  violations joined by \<open>; \<close>, lists the price. (The check is
  \<open>typeof price !== 'number' || Number.isNaN(price)\<close>: an infinite price is a
  number and is not NaN.)
\<close>

theorem invalid_price_rejected:
  assumes "(req_method req = POST \<and> path req = [''api'', ''products''])
           \<or> (req_method req = PUT \<and> path req = [''api'', ''products'', i] \<and> i \<noteq> [])"
    and "x_api_key req = Some (expected_key env)"
    and "typeof (property (body req) ''price'') \<noteq> ''number''
         \<or> Number_isNaN (property (body req) ''price'')"
  shows "handle env uuid req products =
           (ErrorJson 400 ''fail'' (join ''; '' (validation_errors (body req))), products)
         \<and> ''price (number) is required'' \<in> set (validation_errors (body req))"
proof -
  have listed: "''price (number) is required'' \<in> set (validation_errors (body req))"
    using assms(3) by (auto simp add: validation_errors_def)
  then have ne: "validation_errors (body req) \<noteq> []" by auto
  have msg: "join ''; '' (validation_errors (body req)) \<noteq> []"
    using ne by (intro join_nonempty) (auto simp add: validation_errors_def split: if_splits)
  from assms(1) have "handle env uuid req products =
           (ErrorJson 400 ''fail'' (join ''; '' (validation_errors (body req))), products)"
  proof (elim disjE conjE)
    assume "req_method req = POST" "path req = [''api'', ''products'']"
    then show ?thesis
      using ne msg assms(2)
      by (simp add: handle_def route_create run_endpoint_def requireApiKey_pass
          validateProduct_def ValidationError_def)
  next
    assume "req_method req = PUT" "path req = [''api'', ''products'', i]" "i \<noteq> []"
    then show ?thesis
      using ne msg assms(2)
      by (simp add: handle_def route_put run_endpoint_def requireApiKey_pass
          validateProduct_def ValidationError_def)
  qed
  with listed show ?thesis by simp
qed

theorem invalid_price_rejected_witness:
  "handle None ''u'' \<lparr>req_method = POST, path = [''api'', ''products''],
      x_api_key = Some ''secret-key'', query = [],
      body = [(''name'', Str ''Mug''), (''price'', Str ''abc''),
              (''category'', Str ''kitchen''), (''inStock'', Bool True)]\<rparr> products_init
   = (ErrorJson 400 ''fail'' ''price (number) is required'', products_init)"
  using invalid_price_rejected [of "\<lparr>req_method = POST, path = [''api'', ''products''],
      x_api_key = Some ''secret-key'', query = [],
      body = [(''name'', Str ''Mug''), (''price'', Str ''abc''),
              (''category'', Str ''kitchen''), (''inStock'', Bool True)]\<rparr>"
      "[]" None "''u''" products_init]
  by (simp add: expected_key_def validation_errors_def property_def blank_def trim_def
      is_ws_def Number_isNaN_def)

text \<open>
  Claim C2 as it was stated also asks for the Validation error when the price is
  positive or negative infinity. A create request with the right key, an otherwise
  valid body and the price \<open>Infinity\<close> is answered with status 201, and the product
  is stored with that price.
\<close>

theorem infinite_price_accepted:
  "handle None ''u'' \<lparr>req_method = POST, path = [''api'', ''products''],
      x_api_key = Some ''secret-key'', query = [],
      body = [(''name'', Str ''Mug''), (''price'', Num PosInfinity),
              (''category'', Str ''kitchen''), (''inStock'', Bool True)]\<rparr> products_init
   = (ProductJson 201 \<lparr>product_id = ''u'', name = ''Mug'', description = Str [],
                        price = PosInfinity, category = ''kitchen'', inStock = True\<rparr>,
      products_init @ [\<lparr>product_id = ''u'', name = ''Mug'', description = Str [],
        price = PosInfinity, category = ''kitchen'', inStock = True\<rparr>])"
  by (simp add: handle_def routes_def toLowerCase_def lower_char_def run_endpoint_def requireApiKey_def expected_key_def
      validateProduct_def validation_errors_def property_def blank_def trim_def is_ws_def
      Number_isNaN_def create_product_def destructure_def Let_def)

section \<open>Page and limit\<close>

text \<open>
  Claim C3, as amended. The effective page is the number \<open>parseInt\<close> reads from
  \<open>page\<close>, floored at 1, and 1 when \<open>page\<close> is absent or has no leading integer. The
  effective limit is the number \<open>parseInt\<close> reads from \<open>limit\<close>, floored at 1, and
  10 when \<open>limit\<close> is absent, has no leading integer, or reads as 0: in
  \<open>parseInt(limit, 10) || 10\<close> a zero is falsy, as NaN is, and gives the default.
\<close>

theorem effective_page_limit:
  "effective_page req =
     (case map_of (query req) ''page'' of
        None \<Rightarrow> JInt 1
      | Some s \<Rightarrow>
          (case parseInt s of
             JInt n \<Rightarrow> JInt (max 1 n)
           | JPosInf \<Rightarrow> JPosInf
           | JNegInf \<Rightarrow> JInt 1
           | JNaN \<Rightarrow> JInt 1))
   \<and> effective_limit req =
     (case map_of (query req) ''limit'' of
        None \<Rightarrow> JInt 10
      | Some s \<Rightarrow>
          (case parseInt s of
             JInt n \<Rightarrow> if n = 0 then JInt 10 else JInt (max 1 n)
           | JPosInf \<Rightarrow> JPosInf
           | JNegInf \<Rightarrow> JInt 1
           | JNaN \<Rightarrow> JInt 10))"
  by (auto simp add: effective_page_def effective_limit_def split: option.splits jsint.splits)

theorem effective_page_limit_witness:
  "effective_page \<lparr>req_method = GET, path = [''api'', ''products''], x_api_key = None,
      query = [(''page'', ''0''), (''limit'', ''-5'')], body = []\<rparr> = JInt 1
   \<and> effective_limit \<lparr>req_method = GET, path = [''api'', ''products''], x_api_key = None,
      query = [(''page'', ''0''), (''limit'', ''-5'')], body = []\<rparr> = JInt 1"
  using effective_page_limit [of "\<lparr>req_method = GET, path = [''api'', ''products''],
      x_api_key = None, query = [(''page'', ''0''), (''limit'', ''-5'')], body = []\<rparr>"]
  by (simp add: parseInt_def is_ws_def is_digit_def decimal_def double_of_int_def)

text \<open>
  Claim C3 as it was stated gives the request with \<open>limit=0\<close> an effective limit of 1.
  The limit is 10: on the seeded collection the request is answered with all three
  products.
\<close>

theorem limit_zero_uses_default:
  "effective_limit \<lparr>req_method = GET, path = [''api'', ''products''], x_api_key = None,
      query = [(''limit'', ''0'')], body = []\<rparr> = JInt 10
   \<and> handle None ''u'' \<lparr>req_method = GET, path = [''api'', ''products''], x_api_key = None,
      query = [(''limit'', ''0'')], body = []\<rparr> products_init
     = (ListJson 3 (JInt 1) 3 products_init, products_init)"
  by (simp add: handle_def routes_def toLowerCase_def lower_char_def run_endpoint_def
      list_products_def filter_category_def filter_q_def effective_page_def slice_def
      products_init_def Let_def effective_limit_def parseInt_def is_ws_def is_digit_def
      decimal_def double_of_int_def js_sub_def)

section \<open>Update and delete\<close>

lemma findIndex_Some:
  "findIndex P xs = Some idx \<Longrightarrow> idx < length xs \<and> P (xs ! idx) \<and> (\<forall>j<idx. \<not> P (xs ! j))"
proof (induction xs arbitrary: idx)
  case Nil
  then show ?case by simp
next
  case (Cons x xs)
  show ?case
  proof (cases "P x")
    case True
    with Cons.prems show ?thesis by simp
  next
    case False
    with Cons.prems obtain k where k: "findIndex P xs = Some k" "idx = Suc k" by auto
    from Cons.IH [OF k(1)] False k(2) show ?thesis
      by (auto simp add: nth_Cons split: nat.splits)
  qed
qed

lemma findIndex_present: "\<exists>x\<in>set xs. P x \<Longrightarrow> \<exists>idx. findIndex P xs = Some idx"
  using findIndex_None [of P xs] by (cases "findIndex P xs") auto

lemma valid_body_destructure:
  assumes "validation_errors b = []"
  shows "\<exists>n pr c s. property b ''name'' = Str n \<and> property b ''price'' = Num pr
           \<and> property b ''category'' = Str c \<and> property b ''inStock'' = Bool s
           \<and> destructure b = Some (n, (if property b ''description'' = Undefined then Str []
                                        else property b ''description''), pr, c, s)"
proof -
  from assms have t: "typeof (property b ''name'') = ''string''"
    "typeof (property b ''price'') = ''number''"
    "typeof (property b ''category'') = ''string''"
    "typeof (property b ''inStock'') = ''boolean''"
    by (auto simp add: validation_errors_def split: if_splits)
  from t(1) obtain n where n: "property b ''name'' = Str n" by (cases "property b ''name''") auto
  from t(2) obtain pr where pr: "property b ''price'' = Num pr" by (cases "property b ''price''") auto
  from t(3) obtain c where c: "property b ''category'' = Str c" by (cases "property b ''category''") auto
  from t(4) obtain s where s: "property b ''inStock'' = Bool s" by (cases "property b ''inStock''") auto
  from n pr c s show ?thesis by (simp add: destructure_def)
qed

text \<open>
  Claim C4. For a product present in the collection, a PUT to its id with the right key
  and a body that passes validation answers with, and stores in the product's place, the
  record made of the old id and the submitted name, price, category and stock flag,
  with the submitted description, or the empty string when the body has none. No other
  field of the old record survives (a product has no other field), and every other
  product stays where it was. The product updated is the first one with that id.
\<close>

theorem update_replaces_fields:
  assumes "req_method req = PUT" and "path req = [''api'', ''products'', i]" and "i \<noteq> []"
    and "i \<in> product_id ` set products"
    and "x_api_key req = Some (expected_key env)"
    and "validation_errors (body req) = []"
  shows "\<exists>idx n pr c s.
           idx < length products \<and> product_id (products ! idx) = i
           \<and> (\<forall>j<idx. product_id (products ! j) \<noteq> i)
           \<and> property (body req) ''name'' = Str n \<and> property (body req) ''price'' = Num pr
           \<and> property (body req) ''category'' = Str c \<and> property (body req) ''inStock'' = Bool s
           \<and> handle env uuid req products =
               (ProductJson 200
                  \<lparr>product_id = i, name = n,
                    description = (if property (body req) ''description'' = Undefined then Str []
                                   else property (body req) ''description''),
                    price = pr, category = c, inStock = s\<rparr>,
                products[idx := \<lparr>product_id = i, name = n,
                    description = (if property (body req) ''description'' = Undefined then Str []
                                   else property (body req) ''description''),
                    price = pr, category = c, inStock = s\<rparr>])"
proof -
  from assms(4) obtain idx where idx: "findIndex (\<lambda>p. Some (product_id p) = Some i) products = Some idx"
    using findIndex_present [of products "\<lambda>p. Some (product_id p) = Some i"] by auto
  from findIndex_Some [OF idx] have props: "idx < length products" "product_id (products ! idx) = i"
    "\<forall>j<idx. product_id (products ! j) \<noteq> i" by auto
  from valid_body_destructure [OF assms(6)] obtain n pr c s where
    b: "property (body req) ''name'' = Str n" "property (body req) ''price'' = Num pr"
       "property (body req) ''category'' = Str c" "property (body req) ''inStock'' = Bool s"
       "destructure (body req) = Some (n, (if property (body req) ''description'' = Undefined then Str []
                                        else property (body req) ''description''), pr, c, s)"
    by blast
  have upd: "(products ! idx)\<lparr>name := n, description := d, price := pr, category := c, inStock := s\<rparr>
     = \<lparr>product_id = i, name = n, description = d, price = pr, category = c, inStock = s\<rparr>" for d
    using props(2) by (cases "products ! idx") simp
  have "handle env uuid req products =
               (ProductJson 200
                  \<lparr>product_id = i, name = n,
                    description = (if property (body req) ''description'' = Undefined then Str []
                                   else property (body req) ''description''),
                    price = pr, category = c, inStock = s\<rparr>,
                products[idx := \<lparr>product_id = i, name = n,
                    description = (if property (body req) ''description'' = Undefined then Str []
                                   else property (body req) ''description''),
                    price = pr, category = c, inStock = s\<rparr>])"
    using assms(1,2,3,5,6) idx b(5) props(1)
    by (simp add: handle_def route_put run_endpoint_def requireApiKey_pass validateProduct_def
        update_product_def Let_def upd)
  with props b(1-4) show ?thesis by blast
qed

theorem update_replaces_fields_witness:
  "handle None ''u'' \<lparr>req_method = PUT, path = [''api'', ''products'', ''3''],
      x_api_key = Some ''secret-key'', query = [],
      body = [(''name'', Str ''Kettle''), (''price'', Num (Finite 30)),
              (''category'', Str ''kitchen''), (''inStock'', Bool True)]\<rparr> products_init
   = (ProductJson 200 \<lparr>product_id = ''3'', name = ''Kettle'', description = Str [],
                        price = Finite 30, category = ''kitchen'', inStock = True\<rparr>,
      [\<lparr>product_id = ''1'', name = ''Laptop'',
         description = Str ''High-performance laptop with 16GB RAM'',
         price = Finite 1200, category = ''electronics'', inStock = True\<rparr>,
       \<lparr>product_id = ''2'', name = ''Smartphone'',
         description = Str ''Latest model with 128GB storage'',
         price = Finite 800, category = ''electronics'', inStock = True\<rparr>,
       \<lparr>product_id = ''3'', name = ''Kettle'', description = Str [],
         price = Finite 30, category = ''kitchen'', inStock = True\<rparr>])"
  using update_replaces_fields [where req = "\<lparr>req_method = PUT,
      path = [''api'', ''products'', ''3''], x_api_key = Some ''secret-key'', query = [],
      body = [(''name'', Str ''Kettle''), (''price'', Num (Finite 30)),
              (''category'', Str ''kitchen''), (''inStock'', Bool True)]\<rparr>"
      and i = "''3''" and products = products_init and env = None and uuid = "''u''"]
  by (simp add: handle_def routes_def toLowerCase_def lower_char_def run_endpoint_def requireApiKey_def expected_key_def
      validateProduct_def validation_errors_def property_def blank_def trim_def is_ws_def
      Number_isNaN_def update_product_def destructure_def products_init_def Let_def)






section \<open>The list handler\<close>

lemma includes_empty: "includes_str s []"
  by (induction s) auto

lemma double_of_int_small: "\<bar>n\<bar> < 2 ^ 53 \<Longrightarrow> double_of_int n = JInt n"
  by (simp add: double_of_int_def Let_def)

lemma Math_max_JInt: "Math_max m x = JInt n \<Longrightarrow> m \<le> n"
  by (cases x) auto

lemma effective_page_JInt: "effective_page req = JInt n \<Longrightarrow> 1 \<le> n"
  unfolding effective_page_def by (rule Math_max_JInt)

lemma effective_limit_JInt: "effective_limit req = JInt m \<Longrightarrow> 1 \<le> m"
  unfolding effective_limit_def by (rule Math_max_JInt)

lemma slice_take_drop:
  assumes "0 \<le> a" and "0 \<le> m"
  shows "slice xs (JInt a) (JInt (a + m)) = take (nat m) (drop (nat a) xs)"
proof (cases "a < int (length xs)")
  case True
  with assms show ?thesis
    by (auto simp add: slice_def Let_def min_def nat_diff_distrib' nat_add_distrib)
next
  case False
  with assms show ?thesis
    by (auto simp add: slice_def Let_def min_def)
qed

text \<open>
  While the product of page and limit stays below \<open>2 ^ 53\<close>, the arithmetic of the
  handler is exact, and the page is the \<open>limit\<close> elements from offset
  \<open>(page - 1) * limit\<close>.
\<close>

lemma exact_page:
  assumes "1 \<le> n" and "1 \<le> m" and "n * m < 2 ^ 53"
  shows "slice xs (js_mul (js_sub (JInt n) (JInt 1)) (JInt m))
           (js_add (js_mul (js_sub (JInt n) (JInt 1)) (JInt m)) (JInt m))
         = take (nat m) (drop (nat ((n - 1) * m)) xs)"
proof -
  have off: "(n - 1) * m = n * m - m" by (simp add: algebra_simps)
  have nonneg: "0 \<le> (n - 1) * m" using assms(1,2) by simp
  have "(n - 1) * 1 \<le> (n - 1) * m" using assms(1,2) by (intro mult_left_mono) auto
  with off assms have small: "\<bar>n - 1\<bar> < 2 ^ 53" "\<bar>(n - 1) * m\<bar> < 2 ^ 53"
    "\<bar>(n - 1) * m + m\<bar> < 2 ^ 53"
    using nonneg by auto
  have s: "js_sub (JInt n) (JInt 1) = JInt (n - 1)"
    using small(1) by (simp add: js_sub_def double_of_int_small)
  have p: "js_mul (JInt (n - 1)) (JInt m) = JInt ((n - 1) * m)"
    using small(2) by (simp add: double_of_int_small)
  have a: "js_add (JInt ((n - 1) * m)) (JInt m) = JInt ((n - 1) * m + m)"
    using small(3) by (simp add: double_of_int_small)
  from nonneg assms(2) show ?thesis
    unfolding s p a by (intro slice_take_drop) auto
qed

lemma text_match_no_throw:
  assumes "includes_str (toLowerCase (name p)) t \<or> (\<exists>d. description p = Str d)
           \<or> \<not> truthy (description p)"
  shows "text_match t p =
     Inr (includes_str (toLowerCase (name p)) t
          \<or> includes_str (toLowerCase (case description p of Str d \<Rightarrow> d | _ \<Rightarrow> [])) t)"
  using assms
  by (cases "description p") (auto simp add: text_match_def toLowerCase_def includes_empty)

lemma filter_text_no_throw:
  assumes "\<forall>p\<in>set ps. includes_str (toLowerCase (name p)) t \<or> (\<exists>d. description p = Str d)
             \<or> \<not> truthy (description p)"
  shows "filter_text t ps =
     Inr (filter (\<lambda>p. includes_str (toLowerCase (name p)) t
          \<or> includes_str (toLowerCase (case description p of Str d \<Rightarrow> d | _ \<Rightarrow> [])) t) ps)"
  using assms by (induction ps) (simp_all add: text_match_no_throw)

text \<open>
  Claim C5, as amended. A GET of /api/products whose text filter does not meet a stored
  description that is neither a string nor falsy (the filter looks at the description
  of a product that passed the category filter and whose name does not contain the
  term) is answered with a list response made in this order: the category filter, a
  case-insensitive exact match, applied when the \<open>category\<close> parameter is present and
  not empty; then the text filter, a case-insensitive substring match of \<open>q\<close> against
  the name or the description; then the page, the slice of the matches from
  \<open>start = (page - 1) * limit\<close> to \<open>start + limit\<close>, computed on doubles. While
  \<open>page * limit\<close> is below \<open>2 ^ 53\<close> that slice is the \<open>limit\<close> matches from offset
  \<open>(page - 1) * limit\<close>. The field \<open>total\<close> is the number of matches after both
  filters and before paging, and \<open>results\<close> is the length of the page returned.
\<close>

theorem list_filters_then_pages:
  assumes "req_method req = GET" and "path req = [''api'', ''products'']"
    and "\<forall>q. map_of (query req) ''q'' = Some q \<and> q \<noteq> [] \<longrightarrow>
           (\<forall>p\<in>set (filter_category req products).
              includes_str (toLowerCase (name p)) (toLowerCase q)
              \<or> (\<exists>d. description p = Str d) \<or> \<not> truthy (description p))"
  shows "let by_category =
            (case map_of (query req) ''category'' of
               None \<Rightarrow> products
             | Some c \<Rightarrow>
                 if c = [] then products
                 else filter (\<lambda>p. toLowerCase (category p) = toLowerCase c) products);
          matches =
            (case map_of (query req) ''q'' of
               None \<Rightarrow> by_category
             | Some q \<Rightarrow>
                 filter (\<lambda>p. includes_str (toLowerCase (name p)) (toLowerCase q)
                           \<or> includes_str
                                (toLowerCase (case description p of Str d \<Rightarrow> d | _ \<Rightarrow> []))
                                (toLowerCase q)) by_category);
          start = js_mul (js_sub (effective_page req) (JInt 1)) (effective_limit req);
          paged = slice matches start (js_add start (effective_limit req))
      in handle env uuid req products
           = (ListJson (length paged) (effective_page req) (length matches) paged, products)
         \<and> (\<forall>n m. effective_page req = JInt n \<and> effective_limit req = JInt m
                   \<and> n * m < 2 ^ 53 \<longrightarrow>
                paged = take (nat m) (drop (nat ((n - 1) * m)) matches))"
proof -
  have cat: "filter_category req products =
      (case map_of (query req) ''category'' of
               None \<Rightarrow> products
             | Some c \<Rightarrow>
                 if c = [] then products
                 else filter (\<lambda>p. toLowerCase (category p) = toLowerCase c) products)"
    by (simp add: filter_category_def Let_def split: option.splits)
  have fq: "filter_q req (filter_category req products) =
      Inr (case map_of (query req) ''q'' of
               None \<Rightarrow> filter_category req products
             | Some q \<Rightarrow>
                 filter (\<lambda>p. includes_str (toLowerCase (name p)) (toLowerCase q)
                           \<or> includes_str
                                (toLowerCase (case description p of Str d \<Rightarrow> d | _ \<Rightarrow> []))
                                (toLowerCase q)) (filter_category req products))"
  proof (cases "map_of (query req) ''q''")
    case None
    then show ?thesis by (simp add: filter_q_def)
  next
    case (Some q)
    show ?thesis
    proof (cases "q = []")
      case True
      with Some show ?thesis
        by (simp add: filter_q_def toLowerCase_def includes_empty)
    next
      case False
      with Some assms(3) have "\<forall>p\<in>set (filter_category req products).
              includes_str (toLowerCase (name p)) (toLowerCase q)
              \<or> (\<exists>d. description p = Str d) \<or> \<not> truthy (description p)"
        by blast
      from filter_text_no_throw [OF this] Some False show ?thesis
        by (simp add: filter_q_def)
    qed
  qed
  have exact: "slice xs (js_mul (js_sub (effective_page req) (JInt 1)) (effective_limit req))
                 (js_add (js_mul (js_sub (effective_page req) (JInt 1)) (effective_limit req))
                    (effective_limit req))
               = take (nat m) (drop (nat ((n - 1) * m)) xs)"
    if "effective_page req = JInt n" "effective_limit req = JInt m" "n * m < 2 ^ 53"
    for n m and xs :: "product list"
    using that effective_page_JInt [of req n] effective_limit_JInt [of req m]
    by (simp add: exact_page)
  have "handle env uuid req products =
     (ListJson
        (length (slice (case map_of (query req) ''q'' of
               None \<Rightarrow> filter_category req products
             | Some q \<Rightarrow>
                 filter (\<lambda>p. includes_str (toLowerCase (name p)) (toLowerCase q)
                           \<or> includes_str
                                (toLowerCase (case description p of Str d \<Rightarrow> d | _ \<Rightarrow> []))
                                (toLowerCase q)) (filter_category req products))
           (js_mul (js_sub (effective_page req) (JInt 1)) (effective_limit req))
           (js_add (js_mul (js_sub (effective_page req) (JInt 1)) (effective_limit req))
              (effective_limit req))))
        (effective_page req)
        (length (case map_of (query req) ''q'' of
               None \<Rightarrow> filter_category req products
             | Some q \<Rightarrow>
                 filter (\<lambda>p. includes_str (toLowerCase (name p)) (toLowerCase q)
                           \<or> includes_str
                                (toLowerCase (case description p of Str d \<Rightarrow> d | _ \<Rightarrow> []))
                                (toLowerCase q)) (filter_category req products)))
        (slice (case map_of (query req) ''q'' of
               None \<Rightarrow> filter_category req products
             | Some q \<Rightarrow>
                 filter (\<lambda>p. includes_str (toLowerCase (name p)) (toLowerCase q)
                           \<or> includes_str
                                (toLowerCase (case description p of Str d \<Rightarrow> d | _ \<Rightarrow> []))
                                (toLowerCase q)) (filter_category req products))
           (js_mul (js_sub (effective_page req) (JInt 1)) (effective_limit req))
           (js_add (js_mul (js_sub (effective_page req) (JInt 1)) (effective_limit req))
              (effective_limit req))),
      products)"
    using assms(1,2)
    by (simp add: handle_def route_list run_endpoint_def list_products_def fq Let_def)
  then show ?thesis
    unfolding Let_def cat [symmetric] using exact by blast
qed

theorem list_filters_then_pages_witness:
  "handle None ''u'' \<lparr>req_method = GET, path = [''api'', ''products''], x_api_key = None,
      query = [(''category'', ''ELECTRONICS''), (''q'', ''Storage''), (''page'', ''1''),
               (''limit'', ''1'')], body = []\<rparr> products_init
   = (ListJson 1 (JInt 1) 1 [\<lparr>product_id = ''2'', name = ''Smartphone'',
         description = Str ''Latest model with 128GB storage'',
         price = Finite 800, category = ''electronics'', inStock = True\<rparr>], products_init)"
  using list_filters_then_pages [where req = "\<lparr>req_method = GET,
      path = [''api'', ''products''], x_api_key = None,
      query = [(''category'', ''ELECTRONICS''), (''q'', ''Storage''), (''page'', ''1''),
               (''limit'', ''1'')], body = []\<rparr>"
      and products = products_init and env = None and uuid = "''u''"]
  by (simp add: products_init_def filter_category_def effective_page_def effective_limit_def
      parseInt_def is_ws_def is_digit_def decimal_def double_of_int_def js_sub_def slice_def
      toLowerCase_def lower_char_def Let_def)

text \<open>
  Claim C5 as it was stated speaks of every request. Two requests fall outside it. With
  an empty \<open>category\<close> parameter the guard \<open>if (category)\<close> skips the filter, and
  the seeded collection, which has no product of category \<open>''\<close>, is returned whole.
  And \<open>validateProduct\<close> does not look at the description: a create request with
  the description 5 is accepted, and then a search whose term is not in the new
  product's name calls \<open>toLowerCase\<close> on the number and throws; the answer is status
  500 and has neither \<open>total\<close> nor \<open>results\<close>.
\<close>

theorem list_claim_fails:
  "handle None ''u'' \<lparr>req_method = GET, path = [''api'', ''products''], x_api_key = None,
      query = [(''category'', [])], body = []\<rparr> products_init
     = (ListJson 3 (JInt 1) 3 products_init, products_init)
   \<and> handle None ''u1'' \<lparr>req_method = POST, path = [''api'', ''products''],
      x_api_key = Some ''secret-key'', query = [],
      body = [(''name'', Str ''Mug''), (''description'', Num (Finite 5)),
              (''price'', Num (Finite 4)), (''category'', Str ''kitchen''),
              (''inStock'', Bool True)]\<rparr> products_init
     = (ProductJson 201 \<lparr>product_id = ''u1'', name = ''Mug'', description = Num (Finite 5),
                          price = Finite 4, category = ''kitchen'', inStock = True\<rparr>,
        products_init @ [\<lparr>product_id = ''u1'', name = ''Mug'', description = Num (Finite 5),
                          price = Finite 4, category = ''kitchen'', inStock = True\<rparr>])
   \<and> handle None ''u2'' \<lparr>req_method = GET, path = [''api'', ''products''], x_api_key = None,
      query = [(''q'', ''zzz'')], body = []\<rparr>
        (products_init @ [\<lparr>product_id = ''u1'', name = ''Mug'', description = Num (Finite 5),
                          price = Finite 4, category = ''kitchen'', inStock = True\<rparr>])
     = (ErrorJson 500 ''error'' ''toLowerCase is not a function'',
        products_init @ [\<lparr>product_id = ''u1'', name = ''Mug'', description = Num (Finite 5),
                          price = Finite 4, category = ''kitchen'', inStock = True\<rparr>])"
  by (simp add: handle_def routes_def toLowerCase_def lower_char_def run_endpoint_def
      list_products_def filter_category_def filter_q_def effective_page_def slice_def
      products_init_def Let_def effective_limit_def double_of_int_def js_sub_def
      requireApiKey_def expected_key_def validateProduct_def validation_errors_def
      property_def blank_def trim_def is_ws_def Number_isNaN_def create_product_def
      destructure_def text_match_def)

text \<open>
  Beyond the doubles: a limit of 310 digits reads as \<open>Infinity\<close>, the start
  \<open>0 * Infinity\<close> is NaN, and the slice from NaN to NaN is empty, so the first page
  of the seeded collection comes back with no product and \<open>total\<close> 3.
\<close>

lemma huge_limit_empty_page:
  "handle None ''u'' \<lparr>req_method = GET, path = [''api'', ''products''], x_api_key = None,
      query = [(''limit'', ''9999999999999999999999999999999999999999999999999999999999999999999999999999999999999999999999999999999999999999999999999999999999999999999999999999999999999999999999999999999999999999999999999999999999999999999999999999999999999999999999999999999999999999999999999999999999999999999999999999999999999999999999'')], body = []\<rparr> products_init
     = (ListJson 0 (JInt 1) 3 [], products_init)"
  by (simp add: handle_def routes_def toLowerCase_def lower_char_def run_endpoint_def
      list_products_def filter_category_def filter_q_def effective_page_def slice_def
      products_init_def Let_def effective_limit_def parseInt_def is_ws_def is_digit_def
      decimal_def double_of_int_def js_sub_def)

section \<open>Where the identifiers come from\<close>

text \<open>The ways a request can leave the collection.\<close>

lemma create_effect:
  assumes "reaches_create env req"
  shows "\<exists>p. product_id p = uuid
             \<and> handle env uuid req products = (ProductJson 201 p, products @ [p])"
proof -
  from assms obtain params where
    r: "find_route routes (req_method req) (path req) = Some (CreateProduct, params)"
    and k: "requireApiKey env req = None" and v: "validateProduct req = None"
    by (auto simp add: reaches_create_def)
  from v have "validation_errors (body req) = []"
    by (simp add: validateProduct_def Let_def split: if_splits)
  from valid_body_destructure [OF this] obtain n d pr c s where
    "destructure (body req) = Some (n, d, pr, c, s)" by blast
  with r k v show ?thesis
    by (simp add: handle_def run_endpoint_def create_product_def Let_def)
qed

lemma update_product_effect:
  "snd (update_product i req products) = products
   \<or> (\<exists>idx p. idx < length products \<and> product_id p = product_id (products ! idx)
          \<and> snd (update_product i req products) = products[idx := p])"
proof (cases "findIndex (\<lambda>p. Some (product_id p) = i) products")
  case None
  then show ?thesis by (simp add: update_product_def)
next
  case (Some idx)
  from findIndex_Some [OF Some] have len: "idx < length products" by simp
  show ?thesis
  proof (cases "destructure (body req)")
    case None
    with Some show ?thesis by (simp add: update_product_def)
  next
    case (Some t)
    obtain n d pr c s where t: "t = (n, d, pr, c, s)" by (cases t)
    let ?p = "(products ! idx)\<lparr>name := n, description := d, price := pr, category := c,
                inStock := s\<rparr>"
    have "snd (update_product i req products) = products[idx := ?p]"
      using \<open>findIndex (\<lambda>p. Some (product_id p) = i) products = Some idx\<close> Some t
      by (simp add: update_product_def Let_def)
    moreover have "product_id ?p = product_id (products ! idx)" by simp
    ultimately show ?thesis using len by blast
  qed
qed

lemma delete_product_effect:
  "snd (delete_product i products) = products
   \<or> (\<exists>idx. idx < length products
          \<and> snd (delete_product i products) = take idx products @ drop (Suc idx) products)"
proof (cases "findIndex (\<lambda>p. Some (product_id p) = i) products")
  case None
  then show ?thesis by (simp add: delete_product_def)
next
  case (Some idx)
  from findIndex_Some [OF Some] have "idx < length products" by simp
  moreover from Some
  have "snd (delete_product i products) = take idx products @ drop (Suc idx) products"
    by (simp add: delete_product_def Let_def)
  ultimately show ?thesis by blast
qed

lemma handle_effect:
  "(reaches_create env req
      \<and> (\<exists>p. product_id p = uuid \<and> snd (handle env uuid req products) = products @ [p]))
   \<or> (\<not> reaches_create env req \<and>
        (snd (handle env uuid req products) = products
         \<or> (\<exists>idx p. idx < length products \<and> product_id p = product_id (products ! idx)
                \<and> snd (handle env uuid req products) = products[idx := p])
         \<or> (\<exists>idx. idx < length products
                \<and> snd (handle env uuid req products)
                    = take idx products @ drop (Suc idx) products)))"
proof (cases "reaches_create env req")
  case True
  with create_effect [OF True, of uuid products] show ?thesis by auto
next
  case False
  show ?thesis
  proof (cases "find_route routes (req_method req) (path req)")
    case None
    with False show ?thesis by (simp add: handle_def)
  next
    case (Some hp)
    obtain h params where hp: "hp = (h, params)" by (cases hp)
    show ?thesis
    proof (cases h)
      case CreateProduct
      with False Some hp have "requireApiKey env req \<noteq> None \<or> validateProduct req \<noteq> None"
        by (auto simp add: reaches_create_def)
      with False Some hp CreateProduct show ?thesis
        by (auto simp add: handle_def run_endpoint_def split: option.splits)
    next
      case UpdateProduct
      have "snd (handle env uuid req products) = products
         \<or> (\<exists>idx p. idx < length products \<and> product_id p = product_id (products ! idx)
                \<and> snd (handle env uuid req products) = products[idx := p])"
        using Some hp UpdateProduct
          update_product_effect [of "map_of params ''id''" req products]
        by (cases "update_product (map_of params ''id'') req products")
          (auto simp add: handle_def run_endpoint_def split: option.splits sum.splits)
      with False show ?thesis by blast
    next
      case DeleteProduct
      have "snd (handle env uuid req products) = products
         \<or> (\<exists>idx. idx < length products
                \<and> snd (handle env uuid req products)
                    = take idx products @ drop (Suc idx) products)"
        using Some hp DeleteProduct delete_product_effect [of "map_of params ''id''" products]
        by (cases "delete_product (map_of params ''id'') products")
          (auto simp add: handle_def run_endpoint_def split: option.splits sum.splits)
      with False show ?thesis by blast
    next
      case Root
      with False Some hp show ?thesis by (simp add: handle_def run_endpoint_def)
    next
      case ListProducts
      with False Some hp show ?thesis
        by (auto simp add: handle_def run_endpoint_def list_products_def Let_def
            split: sum.splits)
    next
      case GetProduct
      with False Some hp show ?thesis
        by (auto simp add: handle_def run_endpoint_def get_product_def split: option.splits)
    next
      case Stats
      with False Some hp show ?thesis
        by (simp add: handle_def run_endpoint_def stats_handler_def Let_def)
    qed
  qed
qed

lemma ids_update: "idx < length ps \<Longrightarrow> product_id p = product_id (ps ! idx)
   \<Longrightarrow> map product_id (ps[idx := p]) = map product_id ps"
  by (simp add: map_update list_update_same_conv)

lemma subseq_without: "subseq (take idx xs @ drop (Suc idx) xs) xs"
proof (cases "idx < length xs")
  case True
  have "subseq (drop (Suc idx) xs) (xs ! idx # drop (Suc idx) xs)"
    by (rule list_emb_Cons) simp
  then have "subseq (take idx xs @ drop (Suc idx) xs)
               (take idx xs @ xs ! idx # drop (Suc idx) xs)"
    by (simp only: subseq_append')
  with True show ?thesis by (simp add: id_take_nth_drop [symmetric])
next
  case False
  then show ?thesis by simp
qed

text \<open>
  A request that calls \<open>uuidv4()\<close> appends one record, whose id is the value drawn;
  every other request leaves a collection whose ids are those it found, in their
  order, one of them left out at most.
\<close>

lemma serve_create:
  assumes "calls_uuidv4 env inc"
  shows "\<exists>p. product_id p = uuid
             \<and> serve env uuid inc products = (ProductJson 201 p, products @ [p])"
proof -
  from assms obtain req where "bodyParser_json inc = Inr req" "reaches_create env req"
    by (auto simp add: calls_uuidv4_def split: sum.splits)
  with create_effect [of env req uuid products] show ?thesis
    by (simp add: serve_def)
qed

lemma serve_other:
  assumes "\<not> calls_uuidv4 env inc"
  shows "subseq (map product_id (snd (serve env uuid inc products))) (map product_id products)"
proof (cases "bodyParser_json inc")
  case (Inl e)
  then show ?thesis by (simp add: serve_def)
next
  case (Inr req)
  with assms have nc: "\<not> reaches_create env req" by (simp add: calls_uuidv4_def)
  have s: "serve env uuid inc products = handle env uuid req products"
    using Inr by (simp add: serve_def)
  from handle_effect [of env req uuid products] nc
  consider (same) "snd (handle env uuid req products) = products"
    | (update) idx p where "idx < length products"
        "product_id p = product_id (products ! idx)"
        "snd (handle env uuid req products) = products[idx := p]"
    | (delete) idx where
        "snd (handle env uuid req products) = take idx products @ drop (Suc idx) products"
    by blast
  then show ?thesis
  proof cases
    case same
    with s show ?thesis by simp
  next
    case update
    with s ids_update [OF update(1,2)] show ?thesis by simp
  next
    case delete
    have "subseq (take idx (map product_id products) @ drop (Suc idx) (map product_id products))
            (map product_id products)"
      by (rule subseq_without)
    with s delete show ?thesis by (simp add: take_map drop_map)
  qed
qed

lemma uuids_drawn_Cons:
  "uuids_drawn env ((uuid, inc) # rs) =
     (if calls_uuidv4 env inc then uuid # uuids_drawn env rs else uuids_drawn env rs)"
  by (simp add: uuids_drawn_def)

lemma run_append: "run env (pre @ post) products = run env post (run env pre products)"
  by (induction pre arbitrary: products) auto

lemma run_ids_subseq:
  "subseq (map product_id (run env rs products)) (map product_id products @ uuids_drawn env rs)"
proof (induction rs arbitrary: products)
  case Nil
  then show ?case by (simp add: uuids_drawn_def)
next
  case (Cons r rs)
  obtain uuid inc where r: "r = (uuid, inc)" by (cases r)
  let ?next = "snd (serve env uuid inc products)"
  have step: "subseq (map product_id ?next @ uuids_drawn env rs)
                (map product_id products @ uuids_drawn env (r # rs))"
  proof (cases "calls_uuidv4 env inc")
    case True
    from serve_create [OF True, of uuid products] obtain p where
      "product_id p = uuid" "?next = products @ [p]" by auto
    with True show ?thesis by (simp add: r uuids_drawn_Cons)
  next
    case False
    from serve_other [OF False, of uuid products] False show ?thesis
      by (simp add: r uuids_drawn_Cons list_emb_append_mono)
  qed
  from Cons.IH [of ?next] have "subseq (map product_id (run env (r # rs) products))
       (map product_id ?next @ uuids_drawn env rs)" by (simp add: r)
  from this step show ?case by (rule subseq_order.trans)
qed

lemma subseq_distinct: "subseq xs ys \<Longrightarrow> distinct ys \<Longrightarrow> distinct xs"
proof (induction rule: list_emb.induct)
  case (list_emb_Nil ys)
  then show ?case by simp
next
  case (list_emb_Cons xs ys y)
  then show ?case by simp
next
  case (list_emb_Cons2 x y xs ys)
  then have "x \<notin> set xs" by (auto elim: list_emb_set)
  with list_emb_Cons2 show ?case by simp
qed

lemma subseq_set: "subseq xs ys \<Longrightarrow> set xs \<subseteq> set ys"
  by (auto elim: list_emb_set)

text \<open>
  Claim C9, as amended. The server takes the id of a new product from \<open>uuidv4()\<close> and
  makes no check of its own. From the seeded collection, after every sequence of
  requests, the ids of the collection are, in their order, ids among the three seeded
  ones followed by values that \<open>uuidv4()\<close> returned in the run, none more often than
  it was seeded or returned: an update keeps every id, a delete takes one record out, no
  other request but a create adds one, and every create appends one record whose id is
  the value drawn. So the ids are pairwise distinct, and the id of every create is new
  to the collection, in the runs in which \<open>uuidv4()\<close> returns pairwise distinct values
  other than the seeded ids.
\<close>

theorem ids_from_seed_and_uuids:
  "subseq (map product_id (run env rs products_init)) ([''1'', ''2'', ''3''] @ uuids_drawn env rs)
   \<and> (\<forall>pre uuid inc post.
         rs = pre @ (uuid, inc) # post \<and> calls_uuidv4 env inc \<longrightarrow>
         (\<exists>p. product_id p = uuid
              \<and> serve env uuid inc (run env pre products_init)
                  = (ProductJson 201 p, run env pre products_init @ [p])))
   \<and> (distinct (uuids_drawn env rs)
       \<and> set (uuids_drawn env rs) \<inter> {''1'', ''2'', ''3''} = {} \<longrightarrow>
         distinct (map product_id (run env rs products_init))
         \<and> (\<forall>pre uuid inc post.
               rs = pre @ (uuid, inc) # post \<and> calls_uuidv4 env inc \<longrightarrow>
               uuid \<notin> product_id ` set (run env pre products_init)))"
proof (intro conjI allI impI)
  have seeds: "map product_id products_init = [''1'', ''2'', ''3'']"
    by (simp add: products_init_def)
  from run_ids_subseq [of env rs products_init]
  show sub: "subseq (map product_id (run env rs products_init))
               ([''1'', ''2'', ''3''] @ uuids_drawn env rs)"
    by (simp add: seeds)
  { fix pre uuid inc post
    assume "rs = pre @ (uuid, inc) # post \<and> calls_uuidv4 env inc"
    then show "\<exists>p. product_id p = uuid
              \<and> serve env uuid inc (run env pre products_init)
                  = (ProductJson 201 p, run env pre products_init @ [p])"
      by (simp add: serve_create) }
  assume fresh: "distinct (uuids_drawn env rs)
       \<and> set (uuids_drawn env rs) \<inter> {''1'', ''2'', ''3''} = {}"
  then have "distinct ([''1'', ''2'', ''3''] @ uuids_drawn env rs)" by auto
  with sub show "distinct (map product_id (run env rs products_init))"
    by (rule subseq_distinct)
  fix pre uuid inc post
  assume a: "rs = pre @ (uuid, inc) # post \<and> calls_uuidv4 env inc"
  then have drawn: "uuids_drawn env rs = uuids_drawn env pre @ uuid # uuids_drawn env post"
    by (simp add: uuids_drawn_def)
  with fresh have "uuid \<notin> set (uuids_drawn env pre)" "uuid \<notin> {''1'', ''2'', ''3''}"
    by auto
  moreover from run_ids_subseq [of env pre products_init]
  have "set (map product_id (run env pre products_init))
          \<subseteq> set ([''1'', ''2'', ''3''] @ uuids_drawn env pre)"
    unfolding seeds by (rule subseq_set)
  ultimately show "uuid \<notin> product_id ` set (run env pre products_init)" by auto
qed

theorem ids_from_seed_and_uuids_witness:
  "uuids_drawn None
     [(''00000000-0000-4000-8000-00000000000a'',
       \<lparr>in_method = POST, in_path = [''api'', ''products''],
         in_x_api_key = Some ''secret-key'', in_query = [],
         in_body = Json [(''name'', Str ''Mug''), (''price'', Num (Finite 4)),
                         (''category'', Str ''kitchen''), (''inStock'', Bool True)]\<rparr>),
      (''00000000-0000-4000-8000-00000000000b'',
       \<lparr>in_method = DELETE, in_path = [''api'', ''products'', ''2''],
         in_x_api_key = Some ''secret-key'', in_query = [], in_body = Json []\<rparr>),
      (''00000000-0000-4000-8000-00000000000c'',
       \<lparr>in_method = POST, in_path = [''api'', ''products''],
         in_x_api_key = Some ''secret-key'', in_query = [],
         in_body = Json [(''name'', Str ''Cup''), (''price'', Num (Finite 3)),
                         (''category'', Str ''kitchen''), (''inStock'', Bool False)]\<rparr>)]
     = [''00000000-0000-4000-8000-00000000000a'', ''00000000-0000-4000-8000-00000000000c'']
   \<and> map product_id (run None
     [(''00000000-0000-4000-8000-00000000000a'',
       \<lparr>in_method = POST, in_path = [''api'', ''products''],
         in_x_api_key = Some ''secret-key'', in_query = [],
         in_body = Json [(''name'', Str ''Mug''), (''price'', Num (Finite 4)),
                         (''category'', Str ''kitchen''), (''inStock'', Bool True)]\<rparr>),
      (''00000000-0000-4000-8000-00000000000b'',
       \<lparr>in_method = DELETE, in_path = [''api'', ''products'', ''2''],
         in_x_api_key = Some ''secret-key'', in_query = [], in_body = Json []\<rparr>),
      (''00000000-0000-4000-8000-00000000000c'',
       \<lparr>in_method = POST, in_path = [''api'', ''products''],
         in_x_api_key = Some ''secret-key'', in_query = [],
         in_body = Json [(''name'', Str ''Cup''), (''price'', Num (Finite 3)),
                         (''category'', Str ''kitchen''), (''inStock'', Bool False)]\<rparr>)]
     products_init)
     = [''1'', ''3'', ''00000000-0000-4000-8000-00000000000a'',
        ''00000000-0000-4000-8000-00000000000c'']"
  using ids_from_seed_and_uuids [where env = None and rs =
     "[(''00000000-0000-4000-8000-00000000000a'',
       \<lparr>in_method = POST, in_path = [''api'', ''products''],
         in_x_api_key = Some ''secret-key'', in_query = [],
         in_body = Json [(''name'', Str ''Mug''), (''price'', Num (Finite 4)),
                         (''category'', Str ''kitchen''), (''inStock'', Bool True)]\<rparr>),
      (''00000000-0000-4000-8000-00000000000b'',
       \<lparr>in_method = DELETE, in_path = [''api'', ''products'', ''2''],
         in_x_api_key = Some ''secret-key'', in_query = [], in_body = Json []\<rparr>),
      (''00000000-0000-4000-8000-00000000000c'',
       \<lparr>in_method = POST, in_path = [''api'', ''products''],
         in_x_api_key = Some ''secret-key'', in_query = [],
         in_body = Json [(''name'', Str ''Cup''), (''price'', Num (Finite 3)),
                         (''category'', Str ''kitchen''), (''inStock'', Bool False)]\<rparr>)]"]
  by (simp add: uuids_drawn_def calls_uuidv4_def reaches_create_def serve_def
      bodyParser_json_def handle_def routes_def toLowerCase_def lower_char_def
      run_endpoint_def requireApiKey_def expected_key_def validateProduct_def
      validation_errors_def property_def blank_def trim_def is_ws_def Number_isNaN_def
      create_product_def destructure_def delete_product_def products_init_def Let_def)

text \<open>
  Claim C9 as it was stated has every create assign a fresh id. Nothing in the server
  makes it so: when \<open>uuidv4()\<close> returns the same value to two create requests, both
  records are stored, and the collection holds that id twice.
\<close>

theorem same_uuid_twice:
  "map product_id (run None
     [(''00000000-0000-4000-8000-00000000000a'',
       \<lparr>in_method = POST, in_path = [''api'', ''products''],
         in_x_api_key = Some ''secret-key'', in_query = [],
         in_body = Json [(''name'', Str ''Mug''), (''price'', Num (Finite 4)),
                         (''category'', Str ''kitchen''), (''inStock'', Bool True)]\<rparr>),
      (''00000000-0000-4000-8000-00000000000a'',
       \<lparr>in_method = POST, in_path = [''api'', ''products''],
         in_x_api_key = Some ''secret-key'', in_query = [],
         in_body = Json [(''name'', Str ''Cup''), (''price'', Num (Finite 3)),
                         (''category'', Str ''kitchen''), (''inStock'', Bool False)]\<rparr>)]
     products_init)
     = [''1'', ''2'', ''3'', ''00000000-0000-4000-8000-00000000000a'',
        ''00000000-0000-4000-8000-00000000000a'']"
  by (simp add: serve_def bodyParser_json_def handle_def routes_def toLowerCase_def
      lower_char_def run_endpoint_def requireApiKey_def expected_key_def validateProduct_def
      validation_errors_def property_def blank_def trim_def is_ws_def Number_isNaN_def
      create_product_def destructure_def products_init_def Let_def)

end
